theory Spec2Isabelle
  imports Complex_Main
begin

section \<open>Values of the host language\<close>

text \<open>
  The client is TypeScript on Node. Strings are \<^typ>\<open>string\<close>. Clock readings and
  a valid date's milliseconds are whole and are \<^typ>\<open>int\<close>; a value of the type
  \<^verbatim>\<open>number\<close> that the caller supplies (a priority, an expiration, a timeout) is a
  \<open>number\<close> as defined below. A thrown exception or a rejected promise carries a
  \<open>reason\<close>.
\<close>

datatype reason =
    Error string
  | Thrown string
  | StreamError string
  | TimeoutSignal

text \<open>
  \<open>Error m\<close> is \<^verbatim>\<open>new Error(m)\<close> thrown by the client's own code, \<open>Thrown m\<close> an
  exception raised inside a library call (\<^verbatim>\<open>sign\<close>, \<^verbatim>\<open>JSON.parse\<close>,
  \<^verbatim>\<open>JSON.stringify\<close>), \<open>StreamError m\<close> the argument of a stream's
  \<^verbatim>\<open>'error'\<close> event, and \<open>TimeoutSignal\<close> the rejection made by the
  \<^verbatim>\<open>'timeout'\<close> listener, which calls \<^verbatim>\<open>reject\<close> with no argument.
\<close>

datatype json =
    JNull
  | JBool bool
  | JNumber int
  | JString string
  | JArray "json list"
  | JObject "(string \<times> json) list"

datatype hvalue = Undefined | Text string | Numeric int

type_synonym headers = "string \<rightharpoonup> hvalue"

definition header_get :: "headers \<Rightarrow> string \<Rightarrow> hvalue" where
  "header_get h k = (case h k of None \<Rightarrow> Undefined | Some v \<Rightarrow> v)"

subsection \<open>Decimal rendering of whole numbers\<close>

definition digit :: "nat \<Rightarrow> char" where
  "digit d = ''0123456789'' ! d"

function show_nat :: "nat \<Rightarrow> string" where
  "show_nat n = (if n < 10 then [digit n] else show_nat (n div 10) @ [digit (n mod 10)])"
  by pat_completeness auto
termination
  by (relation "measure id") auto

declare show_nat.simps [simp del]

definition show_int :: "int \<Rightarrow> string" where
  "show_int k = (if k < 0 then CHR ''-'' # show_nat (nat (- k)) else show_nat (nat k))"

subsection \<open>Numbers\<close>

text \<open>
  A number is a double: NaN, negative zero, an infinity, or a finite value other than
  negative zero. The finite values are given as rationals; the model does not single out
  the rationals that are doubles. What depends on the floating-point representation
  (the digits of a value that is not a safe whole number, the window of a fractional
  timer) is left to the platform.
\<close>

datatype number = NaN | NegZero | PosInfinity | NegInfinity | Finite rat

text \<open>Truthiness: \<open>0\<close>, \<open>-0\<close> and NaN are falsy, every other number is truthy.\<close>

fun truthy_number :: "number \<Rightarrow> bool" where
  "truthy_number NaN = False"
| "truthy_number NegZero = False"
| "truthy_number PosInfinity = True"
| "truthy_number NegInfinity = True"
| "truthy_number (Finite q) = (q \<noteq> 0)"

text \<open>
  A safe whole number: a whole number of magnitude below \<open>2\<^sup>5\<^sup>3\<close>. Every such number is
  a double, and \<^verbatim>\<open>toString()\<close> and \<^verbatim>\<open>toFixed(0)\<close> print it with all its digits.
\<close>

definition safe_whole :: "rat \<Rightarrow> bool" where
  "safe_whole q \<longleftrightarrow> of_int \<lfloor>q\<rfloor> = q \<and> \<bar>q\<bar> < 2 ^ 53"

text \<open>
  \<^verbatim>\<open>(ms / 1000).toFixed(0)\<close> for the milliseconds \<open>ms\<close> of a valid date (whole, of
  magnitude at most \<open>8.64 \<sqdot> 10\<^sup>1\<^sup>5\<close>): the nearest whole number, a tie going away
  from zero, and the sign kept even when the digits are \<open>0\<close>.
\<close>

definition toFixed0_ms :: "int \<Rightarrow> string" where
  "toFixed0_ms ms =
     (if ms < 0 then CHR ''-'' # show_nat (nat ((- ms + 500) div 1000))
      else show_nat (nat ((ms + 500) div 1000)))"

section \<open>Node's \<^verbatim>\<open>path.join\<close> (POSIX flavour)\<close>

text \<open>
  \<^verbatim>\<open>path.join\<close> is Node's, not the repository's. It drops empty arguments, joins the
  rest with \<open>/\<close> and normalises the result: empty and \<open>.\<close> segments disappear, a
  \<open>..\<close> segment removes the segment before it (and is dropped at the root of an
  absolute path), a trailing \<open>/\<close> is kept.
\<close>

fun split_on :: "char \<Rightarrow> string \<Rightarrow> string list" where
  "split_on c [] = [[]]"
| "split_on c (x # xs) =
     (let r = split_on c xs in if x = c then [] # r else (x # hd r) # tl r)"

fun join_with :: "char \<Rightarrow> string list \<Rightarrow> string" where
  "join_with c [] = []"
| "join_with c [s] = s"
| "join_with c (s # t # ss) = s @ c # join_with c (t # ss)"

text \<open>
  \<^verbatim>\<open>normalizeString\<close>, segment by segment; \<open>acc\<close> holds the segments kept so far,
  last one first.
\<close>

fun normalize_segments :: "bool \<Rightarrow> string list \<Rightarrow> string list \<Rightarrow> string list" where
  "normalize_segments allowAboveRoot acc [] = rev acc"
| "normalize_segments allowAboveRoot acc (seg # segs) =
     (if seg = [] \<or> seg = ''.'' then normalize_segments allowAboveRoot acc segs
      else if seg = ''..'' then
        (case acc of
           a # acc' \<Rightarrow>
             if a = ''..'' then
               normalize_segments allowAboveRoot
                 (if allowAboveRoot then ''..'' # acc else acc) segs
             else normalize_segments allowAboveRoot acc' segs
         | [] \<Rightarrow>
             normalize_segments allowAboveRoot
               (if allowAboveRoot then [''..''] else []) segs)
      else normalize_segments allowAboveRoot (seg # acc) segs)"

definition posix_normalize :: "string \<Rightarrow> string" where
  "posix_normalize p =
     (if p = [] then ''.''
      else
        let isAbsolute = (hd p = CHR ''/'');
            trailingSeparator = (last p = CHR ''/'');
            q = join_with (CHR ''/'')
                  (normalize_segments (\<not> isAbsolute) [] (split_on (CHR ''/'') p))
        in if q = [] then
             (if isAbsolute then ''/'' else if trailingSeparator then ''./'' else ''.'')
           else
             (let q' = (if trailingSeparator then q @ ''/'' else q)
              in if isAbsolute then CHR ''/'' # q' else q'))"

definition path_join :: "string list \<Rightarrow> string" where
  "path_join args =
     (let parts = filter (\<lambda>a. a \<noteq> []) args
      in if parts = [] then ''.'' else posix_normalize (join_with (CHR ''/'') parts))"

section \<open>The request path\<close>

definition API_VERSION :: nat where
  "API_VERSION = 3"

text \<open>
  \<^verbatim>\<open>_getPath\<close>: \<^verbatim>\<open>!deviceToken\<close> holds of a string exactly when it is empty.
\<close>

definition getPath :: "string \<Rightarrow> reason + string" where
  "getPath deviceToken =
     (if deviceToken = [] then Inl (Error ''Device token is required'')
      else Inr (path_join [CHR ''/'' # show_nat API_VERSION, ''device'', deviceToken]))"

section \<open>The platform\<close>

text \<open>
  What the client calls but does not define is gathered in one record, and every
  operation takes it as a parameter: the clock, the JWT library's \<^verbatim>\<open>sign\<close>, the
  JSON and UTF-8 builtins, \<^verbatim>\<open>Number\<close>, the status-text helper (imported from
  \<^verbatim>\<open>../helpers/status\<close>, not among the sources) and the remote end of the HTTP/2
  session. The clock and \<^verbatim>\<open>sign\<close> are indexed by the number of earlier calls, so
  successive readings may differ and signing need not be deterministic.
\<close>

record claims =
  iss :: string
  iat :: int

record sign_options =
  algorithm :: string
  header_alg :: string
  header_kid :: string

datatype http_method = POST | PUT | DELETE | GET

text \<open>
  A request stream as the wrapper leaves it before it waits: the header object given to
  \<^verbatim>\<open>session.request\<close>, the \<^verbatim>\<open>endStream\<close> option, the bodies written and whether
  \<^verbatim>\<open>end()\<close> was called.
\<close>

record stream_request =
  sent_headers :: headers
  endStream :: bool
  written :: "string list"
  ended :: bool

text \<open>
  What a stream does afterwards, in order: the events Node emits on it
  (\<^verbatim>\<open>'response'\<close>, \<^verbatim>\<open>'data'\<close>, \<^verbatim>\<open>'end'\<close>, \<^verbatim>\<open>'error'\<close>), and stretches of
  \<open>n\<close> milliseconds in which nothing happens on the stream (\<open>Idle n\<close>).
\<close>

datatype event =
    ResponseEv headers
  | DataEv string
  | EndEv
  | ErrorEv string
  | Idle nat

record platform =
  Date_now :: "nat \<Rightarrow> int"
  sign :: "nat \<Rightarrow> claims \<Rightarrow> string \<Rightarrow> sign_options \<Rightarrow> reason + string"
  JSON_stringify :: "json \<Rightarrow> reason + string"
  JSON_parse :: "string \<Rightarrow> reason + json"
  toString_utf8 :: "string \<Rightarrow> string"
  Number_toString :: "number \<Rightarrow> string"
  Number_toFixed0 :: "number \<Rightarrow> string"
  timerWindow :: "rat \<Rightarrow> nat"
  Number :: "hvalue \<Rightarrow> int option"
  getStatusText :: "int option \<Rightarrow> string"
  stream_events :: "nat \<Rightarrow> stream_request \<Rightarrow> event list"

text \<open>
  \<open>Number\<close> and the status are \<^typ>\<open>int option\<close> with \<open>None\<close> for NaN;
  \<open>stream_events P k r\<close> is what the \<open>k\<close>-th stream opened on the session emits
  after \<open>r\<close> was sent on it. \<open>Number_toString\<close> and \<open>Number_toFixed0\<close> are
  \<^verbatim>\<open>toString()\<close> and \<^verbatim>\<open>toFixed(0)\<close> where the model does not compute them,
  \<open>timerWindow\<close> the whole milliseconds after which a timer with a fractional window
  fires.
\<close>

text \<open>
  \<^verbatim>\<open>Number.prototype.toString()\<close> and \<^verbatim>\<open>toFixed(0)\<close>: computed for NaN and for
  the safe whole numbers, the platform's otherwise.
\<close>

definition toString :: "platform \<Rightarrow> number \<Rightarrow> string" where
  "toString P x =
     (case x of
        NaN \<Rightarrow> ''NaN''
      | Finite q \<Rightarrow> if safe_whole q then show_int \<lfloor>q\<rfloor> else Number_toString P x
      | _ \<Rightarrow> Number_toString P x)"

definition toFixed0 :: "platform \<Rightarrow> number \<Rightarrow> string" where
  "toFixed0 P x =
     (case x of
        NaN \<Rightarrow> ''NaN''
      | Finite q \<Rightarrow> if safe_whole q then show_int \<lfloor>q\<rfloor> else Number_toFixed0 P x
      | _ \<Rightarrow> Number_toFixed0 P x)"

section \<open>Promises\<close>

text \<open>
  The state a promise ends in. \<open>Pending\<close>: it never settles. \<open>Uncaught e\<close>: it never
  settles either, because a listener threw \<open>e\<close> before it reached \<^verbatim>\<open>resolve\<close>; an
  exception thrown by a listener leaves through the emitter into Node's event loop and
  is no rejection of the promise whose executor registered the listener.
\<close>

datatype 'a promise = Fulfilled 'a | Rejected reason | Pending | Uncaught reason

section \<open>The connection wrapper\<close>

record IRequestOptions =
  headers :: "headers option"
  body :: "string option"
  httpMethod :: http_method
  timeout :: "number option"

record response =
  status :: "int option"
  statusText :: string
  responseHeaders :: headers
  responseBody :: "json option"

definition HTTP2_HEADER_METHOD :: string where
  "HTTP2_HEADER_METHOD = '':method''"

definition HTTP2_HEADER_PATH :: string where
  "HTTP2_HEADER_PATH = '':path''"

definition HTTP2_HEADER_STATUS :: string where
  "HTTP2_HEADER_STATUS = '':status''"

fun method_name :: "http_method \<Rightarrow> string" where
  "method_name POST = ''POST''"
| "method_name PUT = ''PUT''"
| "method_name DELETE = ''DELETE''"
| "method_name GET = ''GET''"

definition TIMEOUT_MAX :: nat where
  "TIMEOUT_MAX = 2 ^ 31 - 1"

text \<open>
  The window Node gives a timer set by \<^verbatim>\<open>setTimeout(msecs, callback)\<close> on a stream:
  a negative or non-finite \<open>msecs\<close> makes the call throw a range error, a window
  above \<open>2\<^sup>3\<^sup>1 - 1\<close> is cut to \<open>2\<^sup>3\<^sup>1 - 1\<close>, and \<open>0\<close> sets no timer. A fractional
  window lasts the platform's whole number of milliseconds, at least one.
\<close>

definition getTimerDuration :: "platform \<Rightarrow> number \<Rightarrow> reason + nat" where
  "getTimerDuration P x =
     (case x of
        Finite q \<Rightarrow>
          if q < 0 then Inl (Thrown ''ERR_OUT_OF_RANGE'')
          else if of_nat TIMEOUT_MAX < q then Inr TIMEOUT_MAX
          else if of_int \<lfloor>q\<rfloor> = q then Inr (nat \<lfloor>q\<rfloor>)
          else Inr (max 1 (timerWindow P q))
      | NegZero \<Rightarrow> Inr 0
      | _ \<Rightarrow> Inl (Thrown ''ERR_OUT_OF_RANGE''))"

text \<open>
  \<^verbatim>\<open>if (timeout) req.setTimeout(timeout ?? 5000, reject)\<close>: the timer is set when the
  option is truthy, that is present and neither \<open>0\<close>, \<open>-0\<close> nor NaN; its window is
  the option's value (\<open>5000\<close> stands where the option would be absent). The result
  is the exception \<^verbatim>\<open>setTimeout\<close> throws, or the window of the timer set, if any.
\<close>

definition armed :: "platform \<Rightarrow> number option \<Rightarrow> reason + nat option" where
  "armed P t =
     (if (case t of None \<Rightarrow> False | Some x \<Rightarrow> truthy_number x)
      then (case getTimerDuration P (case t of None \<Rightarrow> Finite 5000 | Some x \<Rightarrow> x) of
              Inl e \<Rightarrow> Inl e
            | Inr ms \<Rightarrow> Inr (if ms = 0 then None else Some ms))
      else Inr None)"

text \<open>
  The header wait of \<^verbatim>\<open>_responseHeaders\<close>. Its listeners are \<^verbatim>\<open>'error'\<close> (reject),
  \<^verbatim>\<open>'response'\<close> (resolve with the headers and \<^verbatim>\<open>Number\<close> of their status) and,
  when a timer is set, \<^verbatim>\<open>'timeout'\<close> (reject): Node emits \<^verbatim>\<open>'timeout'\<close> once the
  stream has been idle for the timer's window. \<open>w\<close> is the window, \<open>idle\<close> the
  milliseconds of inactivity so far. The result is the promise's end state and the
  events that follow the one that settled it. \<^verbatim>\<open>'data'\<close> and \<^verbatim>\<open>'end'\<close> have no
  listener here. When the events end, nothing happens on the stream any more: a timer
  that is set then fires, and without one the promise never settles.
\<close>

fun headerWait ::
  "platform \<Rightarrow> nat option \<Rightarrow> nat \<Rightarrow> event list \<Rightarrow> (headers \<times> int option) promise \<times> event list"
where
  "headerWait P w idle [] =
     (case w of None \<Rightarrow> (Pending, []) | Some ms \<Rightarrow> (Rejected TimeoutSignal, []))"
| "headerWait P w idle (Idle n # es) =
     (case w of
        Some ms \<Rightarrow>
          if ms \<le> idle + n then (Rejected TimeoutSignal, es)
          else headerWait P w (idle + n) es
      | None \<Rightarrow> headerWait P w (idle + n) es)"
| "headerWait P w idle (ErrorEv m # es) = (Rejected (StreamError m), es)"
| "headerWait P w idle (ResponseEv h # es) =
     (Fulfilled (h, Number P (header_get h HTTP2_HEADER_STATUS)), es)"
| "headerWait P w idle (DataEv c # es) = headerWait P w 0 es"
| "headerWait P w idle (EndEv # es) = headerWait P w 0 es"

text \<open>
  \<^verbatim>\<open>_responseHeaders\<close>: the timer is set first, inside the promise's executor, so an
  exception of \<^verbatim>\<open>setTimeout\<close> rejects the promise before any listener is
  registered.
\<close>

definition responseHeaders ::
  "platform \<Rightarrow> number option \<Rightarrow> event list \<Rightarrow> (headers \<times> int option) promise \<times> event list"
where
  "responseHeaders P t es =
     (case armed P t of
        Inl e \<Rightarrow> (Rejected e, es)
      | Inr w \<Rightarrow> headerWait P w 0 es)"

text \<open>
  \<^verbatim>\<open>_convertBufferToJson\<close>. The guard \<^verbatim>\<open>buffer && typeof buffer\<close> holds of every
  buffer object, also of an empty one; \<open>None\<close> is a missing buffer, for which the
  function returns \<^verbatim>\<open>undefined\<close>. \<open>Inl e\<close>: \<^verbatim>\<open>JSON.parse\<close> threw \<open>e\<close>.
\<close>

definition convertBufferToJson :: "platform \<Rightarrow> string option \<Rightarrow> reason + json option" where
  "convertBufferToJson P buffer =
     (case buffer of
        None \<Rightarrow> Inr None
      | Some b \<Rightarrow>
          (let text = toString_utf8 P b
           in if text \<noteq> [] then
                (case JSON_parse P text of Inl e \<Rightarrow> Inl e | Inr j \<Rightarrow> Inr (Some j))
              else Inr None))"

text \<open>
  The body wait of \<^verbatim>\<open>_responseJson\<close>: \<^verbatim>\<open>'data'\<close> pushes the chunk,
  \<^verbatim>\<open>'error'\<close> rejects, \<^verbatim>\<open>'end'\<close> destroys the stream, removes all listeners and
  calls \<^verbatim>\<open>resolve\<close> on the converted buffer. The conversion is the argument of
  \<^verbatim>\<open>resolve\<close> and runs inside the \<^verbatim>\<open>'end'\<close> listener: when it throws,
  \<^verbatim>\<open>resolve\<close> is never reached and no listener is left to settle the promise.
\<close>

fun bodyWait :: "platform \<Rightarrow> string list \<Rightarrow> event list \<Rightarrow> json option promise" where
  "bodyWait P chunks [] = Pending"
| "bodyWait P chunks (DataEv c # es) = bodyWait P (chunks @ [c]) es"
| "bodyWait P chunks (EndEv # es) =
     (case convertBufferToJson P (Some (concat chunks)) of
        Inl e \<Rightarrow> Uncaught e
      | Inr v \<Rightarrow> Fulfilled v)"
| "bodyWait P chunks (ErrorEv m # es) = Rejected (StreamError m)"
| "bodyWait P chunks (ResponseEv h # es) = bodyWait P chunks es"
| "bodyWait P chunks (Idle n # es) = bodyWait P chunks es"

definition responseJson :: "platform \<Rightarrow> event list \<Rightarrow> json option promise" where
  "responseJson P es = bodyWait P [] es"

text \<open>
  The wrapper object: the session's target and, as a record of what was done on the
  session, the streams opened on it so far (oldest first).
\<close>

record Http2Wrapper =
  url :: string
  streams :: "stream_request list"

text \<open>
  The first half of \<^verbatim>\<open>request\<close>: the stream it opens. The header object is the
  caller's headers spread first, then the method and path keys written over them. The
  stream is opened with \<^verbatim>\<open>endStream: !body\<close>, the body is written if it is truthy
  (present and not the empty string), and the stream is ended.
\<close>

definition openStream :: "string \<Rightarrow> IRequestOptions \<Rightarrow> stream_request" where
  "openStream path opts =
     (let hs = (case headers opts of None \<Rightarrow> Map.empty | Some h \<Rightarrow> h)
                 (HTTP2_HEADER_METHOD \<mapsto> Text (method_name (httpMethod opts)),
                  HTTP2_HEADER_PATH \<mapsto> Text path);
          hasBody = (case body opts of None \<Rightarrow> False | Some b \<Rightarrow> b \<noteq> [])
      in \<lparr>sent_headers = hs, endStream = \<not> hasBody,
          written = (case body opts of None \<Rightarrow> [] | Some b \<Rightarrow> if b \<noteq> [] then [b] else []),
          ended = True\<rparr>)"

text \<open>
  The second half: the header wait and, once it is fulfilled, the body wait, over the
  stream's events. A rejected wait rejects the request (the \<^verbatim>\<open>await\<close> throws inside
  the \<^verbatim>\<open>async\<close> function); a wait that never settles leaves the request unsettled.
\<close>

definition awaitResponse :: "platform \<Rightarrow> number option \<Rightarrow> event list \<Rightarrow> response promise" where
  "awaitResponse P t evs =
     (case responseHeaders P t evs of
        (Rejected e, rest) \<Rightarrow> Rejected e
      | (Pending, rest) \<Rightarrow> Pending
      | (Uncaught e, rest) \<Rightarrow> Uncaught e
      | (Fulfilled (h, st), rest) \<Rightarrow>
          (case responseJson P rest of
             Fulfilled b \<Rightarrow>
               Fulfilled \<lparr>status = st, statusText = getStatusText P st,
                          responseHeaders = h, responseBody = b\<rparr>
           | Rejected e \<Rightarrow> Rejected e
           | Pending \<Rightarrow> Pending
           | Uncaught e \<Rightarrow> Uncaught e))"

text \<open>
  \<^verbatim>\<open>request\<close>: the stream is the next one of the session; the result is the
  promise's end state and the wrapper with the stream recorded.
\<close>

definition request ::
  "platform \<Rightarrow> 'a Http2Wrapper_scheme \<Rightarrow> string \<Rightarrow> IRequestOptions
     \<Rightarrow> response promise \<times> 'a Http2Wrapper_scheme"
where
  "request P s path opts =
     (let req = openStream path opts
      in (awaitResponse P (timeout opts) (stream_events P (length (streams s)) req),
          s\<lparr>streams := streams s @ [req]\<rparr>))"

section \<open>The push client\<close>

text \<open>
  Modelled from the spec: the \<^verbatim>\<open>Notification\<close> class is imported from
  \<^verbatim>\<open>../notifications/notification\<close> and is not among the sources. The record has
  the members the client reads, typed as the spec's external interface gives them:
  \<^verbatim>\<open>deviceToken: string\<close>, \<^verbatim>\<open>pushType: string\<close>, \<^verbatim>\<open>priority?: number\<close>,
  \<^verbatim>\<open>options?: { topic?, expiration?: number | Date, collapseId?: string }\<close>, and
  the value \<^verbatim>\<open>buildApnsOptions()\<close> returns. A \<^verbatim>\<open>Date\<close> is given by its
  \<^verbatim>\<open>getTime()\<close>: the milliseconds of a valid date, or \<open>None\<close> for an invalid
  date, whose \<^verbatim>\<open>getTime()\<close> is NaN.
\<close>

datatype expiration = Seconds number | Date "int option"

record NotificationOptions =
  topic :: "string option"
  expiration :: "expiration option"
  collapseId :: "string option"

record Notification =
  deviceToken :: string
  pushType :: string
  priority :: "number option"
  options :: "NotificationOptions option"
  buildApnsOptions :: json

record SigningToken =
  tokenValue :: string
  timestamp :: int

text \<open>
  The client object extends the wrapper. \<open>token\<close> is the private \<^verbatim>\<open>_token\<close>
  (\<open>None\<close> for \<^verbatim>\<open>null\<close>). \<open>clockReads\<close> and \<open>signCalls\<close> count the calls of
  \<^verbatim>\<open>Date.now()\<close> and \<^verbatim>\<open>sign\<close> made so far; they select the platform's next
  answer and make a signing operation visible in the state.
\<close>

record ApnsClient = Http2Wrapper +
  team :: string
  keyId :: string
  host :: string
  signingKey :: string
  defaultTopic :: "string option"
  token :: "SigningToken option"
  clockReads :: nat
  signCalls :: nat

definition SIGNING_ALGORITHM :: string where
  "SIGNING_ALGORITHM = ''ES256''"

definition RESET_TOKEN_INTERVAL_MS :: int where
  "RESET_TOKEN_INTERVAL_MS = 55 * 60 * 1000"

definition Host_production :: string where
  "Host_production = ''api.push.apple.com''"

definition Host_development :: string where
  "Host_development = ''api.sandbox.push.apple.com''"

definition getUrl :: "string option \<Rightarrow> string" where
  "getUrl h = ''https://'' @ (case h of None \<Rightarrow> Host_production | Some x \<Rightarrow> x)"

text \<open>The constructor, from the options \<^verbatim>\<open>team\<close>, \<^verbatim>\<open>signingKey\<close>, \<^verbatim>\<open>keyId\<close>,
  \<^verbatim>\<open>defaultTopic\<close> and \<^verbatim>\<open>host\<close>.\<close>

definition newApnsClient ::
  "string \<Rightarrow> string \<Rightarrow> string \<Rightarrow> string option \<Rightarrow> string option \<Rightarrow> ApnsClient"
where
  "newApnsClient tm key kid dt h =
     \<lparr>url = getUrl h, streams = [],
      team = tm, keyId = kid,
      host = (case h of None \<Rightarrow> Host_production | Some x \<Rightarrow> x),
      signingKey = key, defaultTopic = dt, token = None,
      clockReads = 0, signCalls = 0\<rparr>"

subsection \<open>The signing token\<close>

definition now :: "platform \<Rightarrow> ApnsClient \<Rightarrow> int \<times> ApnsClient" where
  "now P s = (Date_now P (clockReads s), s\<lparr>clockReads := Suc (clockReads s)\<rparr>)"

text \<open>
  The part of \<^verbatim>\<open>_getSigningToken\<close> after its guard: read the clock for \<^verbatim>\<open>iat\<close>,
  sign, and when \<^verbatim>\<open>sign\<close> returned, read the clock again for the timestamp and
  store the token. When \<^verbatim>\<open>sign\<close> throws, nothing is stored.
\<close>

definition signFresh :: "platform \<Rightarrow> ApnsClient \<Rightarrow> (reason + string) \<times> ApnsClient" where
  "signFresh P s =
     (let (t_iat, s1) = now P s;
          cl = \<lparr>iss = team s1, iat = t_iat div 1000\<rparr>;
          r = sign P (signCalls s1) cl (signingKey s1)
                \<lparr>algorithm = SIGNING_ALGORITHM, header_alg = SIGNING_ALGORITHM,
                 header_kid = keyId s1\<rparr>;
          s2 = s1\<lparr>signCalls := Suc (signCalls s1)\<rparr>
      in (case r of
            Inl e \<Rightarrow> (Inl e, s2)
          | Inr v \<Rightarrow>
              (let (t_stamp, s3) = now P s2
               in (Inr v, s3\<lparr>token := Some \<lparr>tokenValue = v, timestamp = t_stamp\<rparr>\<rparr>))))"

text \<open>
  \<^verbatim>\<open>_getSigningToken\<close>. The guard reads the clock only when a token is stored
  (\<^verbatim>\<open>&&\<close> evaluates its right operand only then).
\<close>

definition getSigningToken :: "platform \<Rightarrow> ApnsClient \<Rightarrow> (reason + string) \<times> ApnsClient" where
  "getSigningToken P s =
     (case token s of
        None \<Rightarrow> signFresh P s
      | Some t \<Rightarrow>
          (let (t_now, s1) = now P s
           in if t_now - timestamp t < RESET_TOKEN_INTERVAL_MS then (Inr (tokenValue t), s1)
              else signFresh P s1))"

definition resetSigningToken :: "ApnsClient \<Rightarrow> ApnsClient" where
  "resetSigningToken s = s\<lparr>token := None\<rparr>"

text \<open>
  \<^verbatim>\<open>_handleEvents\<close> registers one listener on the client's private emitter;
  \<open>emit\<close> is the effect of an event of the given name on the client. The name
  \<^verbatim>\<open>Errors.expiredProviderToken\<close> comes from \<^verbatim>\<open>../constants/errors\<close>, which is not
  among the sources, and is a parameter.
\<close>

definition emit :: "string \<Rightarrow> string \<Rightarrow> ApnsClient \<Rightarrow> ApnsClient" where
  "emit expiredProviderToken name s =
     (if name = expiredProviderToken then resetSigningToken s else s)"

subsection \<open>Headers\<close>

text \<open>
  The two optional headers are guarded by the truthiness of the option: a missing
  options object or member is falsy, and so are the numbers \<open>0\<close>, \<open>-0\<close> and NaN
  and the empty string; a \<^verbatim>\<open>Date\<close> object is truthy, also an invalid one.
\<close>

definition expirationOf :: "Notification \<Rightarrow> expiration option" where
  "expirationOf n = (case options n of None \<Rightarrow> None | Some opt \<Rightarrow> expiration opt)"

definition collapseIdOf :: "Notification \<Rightarrow> string option" where
  "collapseIdOf n = (case options n of None \<Rightarrow> None | Some opt \<Rightarrow> collapseId opt)"

definition topicOf :: "Notification \<Rightarrow> string option" where
  "topicOf n = (case options n of None \<Rightarrow> None | Some opt \<Rightarrow> topic opt)"

fun truthy_expiration :: "expiration option \<Rightarrow> bool" where
  "truthy_expiration None = False"
| "truthy_expiration (Some (Seconds x)) = truthy_number x"
| "truthy_expiration (Some (Date d)) = True"

fun truthy_string :: "string option \<Rightarrow> bool" where
  "truthy_string None = False"
| "truthy_string (Some x) = (x \<noteq> [])"

text \<open>
  The header's value: \<^verbatim>\<open>toFixed(0)\<close> of the number, or of the date's milliseconds
  divided by \<open>1000\<close> (NaN for an invalid date).
\<close>

fun expirationText :: "platform \<Rightarrow> expiration \<Rightarrow> string" where
  "expirationText P (Seconds x) = toFixed0 P x"
| "expirationText P (Date None) = ''NaN''"
| "expirationText P (Date (Some ms)) =
     (if \<bar>ms\<bar> \<le> 8640000000000000 then toFixed0_ms ms
      else Number_toFixed0 P (Finite (of_int ms / 1000)))"

text \<open>
  The header object of \<^verbatim>\<open>_buildHeaders\<close>, given the signing token, the path and
  the client's default topic: the object literal, then the two guarded assignments.
\<close>

definition headerObject ::
  "platform \<Rightarrow> string \<Rightarrow> string \<Rightarrow> string option \<Rightarrow> Notification \<Rightarrow> headers"
where
  "headerObject P tok p dflt n =
     (let h0 = [''authorization'' \<mapsto> Text (''bearer '' @ tok),
                ''apns-push-type'' \<mapsto> Text (pushType n),
                ''apns-priority'' \<mapsto>
                  Text (case priority n of None \<Rightarrow> ''0'' | Some k \<Rightarrow> toString P k),
                ''apns-topic'' \<mapsto>
                  (case topicOf n of
                     Some x \<Rightarrow> Text x
                   | None \<Rightarrow> (case dflt of None \<Rightarrow> Undefined | Some x \<Rightarrow> Text x)),
                '':method'' \<mapsto> Text ''POST'',
                '':scheme'' \<mapsto> Text ''https'',
                '':path'' \<mapsto> Text p];
          h1 = (if truthy_expiration (expirationOf n)
                then (case expirationOf n of
                        None \<Rightarrow> h0
                      | Some x \<Rightarrow> h0(''apns-expiration'' \<mapsto> Text (expirationText P x)))
                else h0);
          h2 = (if truthy_string (collapseIdOf n)
                then (case collapseIdOf n of
                        None \<Rightarrow> h1
                      | Some c \<Rightarrow> h1(''apns-collapse-id'' \<mapsto> Text c))
                else h1)
      in h2)"

text \<open>
  \<^verbatim>\<open>_buildHeaders\<close>. The object literal evaluates its members in order: the
  authorization member calls \<^verbatim>\<open>_getSigningToken\<close> (which may throw and may change
  the client), the \<open>:path\<close> member calls \<^verbatim>\<open>_getPath\<close> (which may throw).
\<close>

definition buildHeaders ::
  "platform \<Rightarrow> ApnsClient \<Rightarrow> Notification \<Rightarrow> (reason + headers) \<times> ApnsClient"
where
  "buildHeaders P s n =
     (case getSigningToken P s of
        (Inl e, s1) \<Rightarrow> (Inl e, s1)
      | (Inr tok, s1) \<Rightarrow>
          (case getPath (deviceToken n) of
             Inl e \<Rightarrow> (Inl e, s1)
           | Inr p \<Rightarrow> (Inr (headerObject P tok p (defaultTopic s1) n), s1)))"

subsection \<open>Sending\<close>

text \<open>
  \<^verbatim>\<open>_push\<close> is an \<^verbatim>\<open>async\<close> function: an exception thrown while the arguments of
  \<^verbatim>\<open>this.request\<close> are evaluated rejects its promise. The arguments are evaluated
  left to right: the path, then the headers, then the body. No \<^verbatim>\<open>timeout\<close> is
  passed.
\<close>

definition push ::
  "platform \<Rightarrow> ApnsClient \<Rightarrow> Notification \<Rightarrow> response promise \<times> ApnsClient"
where
  "push P s n =
     (case getPath (deviceToken n) of
        Inl e \<Rightarrow> (Rejected e, s)
      | Inr p \<Rightarrow>
          (case buildHeaders P s n of
             (Inl e, s1) \<Rightarrow> (Rejected e, s1)
           | (Inr h, s1) \<Rightarrow>
               (case JSON_stringify P (buildApnsOptions n) of
                  Inl e \<Rightarrow> (Rejected e, s1)
                | Inr b \<Rightarrow>
                    request P s1 p
                      \<lparr>headers = Some h, body = Some b, httpMethod = POST, timeout = None\<rparr>)))"

definition send ::
  "platform \<Rightarrow> ApnsClient \<Rightarrow> Notification \<Rightarrow> response promise \<times> ApnsClient"
where
  "send P s n = push P s n"

text \<open>
  An element of the batch's result: the response, or the object \<^verbatim>\<open>{ error }\<close> that
  the \<^verbatim>\<open>catch\<close> handler builds.
\<close>

datatype outcome = Sent response | Captured reason

fun catchError :: "response promise \<Rightarrow> outcome promise" where
  "catchError (Fulfilled r) = Fulfilled (Sent r)"
| "catchError (Rejected e) = Fulfilled (Captured e)"
| "catchError Pending = Pending"
| "catchError (Uncaught e) = Uncaught e"

text \<open>
  \<^verbatim>\<open>Promise.all\<close>: rejected when a member is rejected (the model takes the first in
  list order), fulfilled with all values in order when every member is fulfilled, and
  never settled otherwise.
\<close>

fun first_rejection :: "'a promise list \<Rightarrow> reason option" where
  "first_rejection [] = None"
| "first_rejection (Rejected e # ps) = Some e"
| "first_rejection (p # ps) = first_rejection ps"

fun first_uncaught :: "'a promise list \<Rightarrow> reason option" where
  "first_uncaught [] = None"
| "first_uncaught (Uncaught e # ps) = Some e"
| "first_uncaught (p # ps) = first_uncaught ps"

fun fulfilled_values :: "'a promise list \<Rightarrow> 'a list option" where
  "fulfilled_values [] = Some []"
| "fulfilled_values (Fulfilled v # ps) =
     (case fulfilled_values ps of None \<Rightarrow> None | Some vs \<Rightarrow> Some (v # vs))"
| "fulfilled_values (p # ps) = None"

definition Promise_all :: "'a promise list \<Rightarrow> 'a list promise" where
  "Promise_all ps =
     (case first_rejection ps of
        Some e \<Rightarrow> Rejected e
      | None \<Rightarrow>
          (case fulfilled_values ps of
             Some vs \<Rightarrow> Fulfilled vs
           | None \<Rightarrow>
               (case first_uncaught ps of Some e \<Rightarrow> Uncaught e | None \<Rightarrow> Pending)))"

text \<open>
  \<^verbatim>\<open>notifications.map\<close> calls \<^verbatim>\<open>_push\<close> on each notification in turn; each call
  runs up to its first wait before the next starts, so the client's state is threaded
  through the list. Each promise gets its \<^verbatim>\<open>catch\<close> handler.
\<close>

fun pushEach ::
  "platform \<Rightarrow> ApnsClient \<Rightarrow> Notification list \<Rightarrow> outcome promise list \<times> ApnsClient"
where
  "pushEach P s [] = ([], s)"
| "pushEach P s (n # ns) =
     (let (r, s1) = push P s n;
          (rs, s2) = pushEach P s1 ns
      in (catchError r # rs, s2))"

definition sendMany ::
  "platform \<Rightarrow> ApnsClient \<Rightarrow> Notification list \<Rightarrow> outcome list promise \<times> ApnsClient"
where
  "sendMany P s ns = (let (ps, s') = pushEach P s ns in (Promise_all ps, s'))"

text \<open>A promise that is fulfilled or rejected.\<close>

fun settled :: "'a promise \<Rightarrow> bool" where
  "settled (Fulfilled v) = True"
| "settled (Rejected e) = True"
| "settled Pending = False"
| "settled (Uncaught e) = False"

section \<open>Sample inputs\<close>

text \<open>
  Concrete inputs on which the statements below are evaluated. The sample platform's
  clock advances by one millisecond per reading, its \<^verbatim>\<open>sign\<close> numbers its tokens,
  and its \<^verbatim>\<open>JSON.parse\<close> accepts the text \<open>{}\<close> only. Its remote end answers a
  request for the device \<open>bad0\<close> with an HTML page in two chunks and every other
  request with status 200 and an empty body. The slow platform's remote end stays idle
  for \<open>n\<close> milliseconds first.
\<close>

definition sampleResponseHeaders :: headers where
  "sampleResponseHeaders = ['':status'' \<mapsto> Numeric 200]"

definition sampleEvents :: "stream_request \<Rightarrow> event list" where
  "sampleEvents r =
     (if sent_headers r '':path'' = Some (Text ''/3/device/bad0'')
      then [ResponseEv sampleResponseHeaders, DataEv ''<ht'', DataEv ''ml>'', EndEv]
      else [ResponseEv sampleResponseHeaders, EndEv])"

definition samplePlatform :: platform where
  "samplePlatform =
     \<lparr>Date_now = (\<lambda>k. 1000000 + int k),
      sign = (\<lambda>k cl key opt. Inr (''jwt'' @ show_nat k)),
      JSON_stringify = (\<lambda>j. Inr ''{}''),
      JSON_parse = (\<lambda>t. if t = ''{}'' then Inr (JObject []) else Inl (Thrown ''SyntaxError'')),
      toString_utf8 = (\<lambda>b. b),
      Number_toString = (\<lambda>x. ''1e+21''),
      Number_toFixed0 = (\<lambda>x. ''1e+21''),
      timerWindow = (\<lambda>q. nat \<lceil>q\<rceil>),
      Number = (\<lambda>v. case v of Numeric k \<Rightarrow> Some k | _ \<Rightarrow> None),
      getStatusText = (\<lambda>st. if st = Some 200 then ''OK'' else []),
      stream_events = (\<lambda>k r. sampleEvents r)\<rparr>"

definition slowPlatform :: "nat \<Rightarrow> platform" where
  "slowPlatform n = samplePlatform\<lparr>stream_events := (\<lambda>k r. Idle n # sampleEvents r)\<rparr>"

definition sampleClient :: ApnsClient where
  "sampleClient = newApnsClient ''TEAM'' ''KEY'' ''KID'' (Some ''com.example'') None"

definition sampleNotification :: "string \<Rightarrow> Notification" where
  "sampleNotification tok =
     \<lparr>deviceToken = tok, pushType = ''alert'', priority = None, options = None,
      buildApnsOptions = JObject []\<rparr>"


definition sampleOk :: response where
  "sampleOk =
     \<lparr>status = Some 200, statusText = ''OK'', responseHeaders = sampleResponseHeaders,
      responseBody = None\<rparr>"

section \<open>Properties\<close>

subsection \<open>The request path\<close>


lemma show_nat_API_VERSION: "show_nat API_VERSION = ''3''"
  by (simp add: API_VERSION_def show_nat.simps digit_def)




subsection \<open>The signing token\<close>

lemma signFresh_result:
  "fst (signFresh P s) =
     sign P (signCalls s) \<lparr>iss = team s, iat = Date_now P (clockReads s) div 1000\<rparr>
       (signingKey s)
       \<lparr>algorithm = ''ES256'', header_alg = ''ES256'', header_kid = keyId s\<rparr>"
  by (simp add: signFresh_def now_def SIGNING_ALGORITHM_def Let_def split: sum.splits)

lemma signFresh_state:
  "snd (signFresh P s) =
     (case sign P (signCalls s) \<lparr>iss = team s, iat = Date_now P (clockReads s) div 1000\<rparr>
             (signingKey s)
             \<lparr>algorithm = ''ES256'', header_alg = ''ES256'', header_kid = keyId s\<rparr> of
        Inl e \<Rightarrow> s\<lparr>clockReads := Suc (clockReads s), signCalls := Suc (signCalls s)\<rparr>
      | Inr v \<Rightarrow>
          s\<lparr>clockReads := Suc (Suc (clockReads s)), signCalls := Suc (signCalls s),
            token := Some \<lparr>tokenValue = v, timestamp = Date_now P (Suc (clockReads s))\<rparr>\<rparr>)"
  by (simp add: signFresh_def now_def SIGNING_ALGORITHM_def Let_def split: sum.splits)

lemma getSigningToken_cached:
  "token s = Some t \<Longrightarrow> Date_now P (clockReads s) - timestamp t < RESET_TOKEN_INTERVAL_MS \<Longrightarrow>
   getSigningToken P s = (Inr (tokenValue t), s\<lparr>clockReads := Suc (clockReads s)\<rparr>)"
  by (simp add: getSigningToken_def now_def)

lemma getSigningToken_absent: "token s = None \<Longrightarrow> getSigningToken P s = signFresh P s"
  by (simp add: getSigningToken_def)

lemma getSigningToken_stale:
  "token s = Some t \<Longrightarrow> \<not> Date_now P (clockReads s) - timestamp t < RESET_TOKEN_INTERVAL_MS \<Longrightarrow>
   getSigningToken P s = signFresh P (s\<lparr>clockReads := Suc (clockReads s)\<rparr>)"
  by (simp add: getSigningToken_def now_def)

lemma getSigningToken_stores:
  "getSigningToken P s = (Inr v, s1) \<Longrightarrow> \<exists>t1. token s1 = Some t1 \<and> tokenValue t1 = v"
  unfolding getSigningToken_def signFresh_def now_def
  by (auto simp: Let_def split: option.splits if_splits sum.splits)

text \<open>
  C2: while a token is stored and the clock reading minus its timestamp is below the
  rotation interval of 55 minutes, \<^verbatim>\<open>_getSigningToken\<close> returns the stored value,
  keeps the token and signs nothing; so a call that follows a successful call within
  the interval returns the same string. Otherwise (no token, or a token as old as the
  interval) it signs the claims \<open>iss = team\<close>, \<open>iat = now div 1000\<close> and, when
  \<^verbatim>\<open>sign\<close> returns, stores the new value with the next clock reading as timestamp.
\<close>

theorem getSigningToken_rotation:
  "RESET_TOKEN_INTERVAL_MS = 55 * 60 * 1000 \<and>
   (token s = Some t \<and> Date_now P (clockReads s) - timestamp t < RESET_TOKEN_INTERVAL_MS \<longrightarrow>
      fst (getSigningToken P s) = Inr (tokenValue t) \<and>
      token (snd (getSigningToken P s)) = Some t \<and>
      signCalls (snd (getSigningToken P s)) = signCalls s) \<and>
   (getSigningToken P s = (Inr v, s1) \<and> token s1 = Some t1 \<and>
    Date_now P (clockReads s1) - timestamp t1 < RESET_TOKEN_INTERVAL_MS \<longrightarrow>
      fst (getSigningToken P s1) = Inr v) \<and>
   (token s = None \<or>
    (\<exists>u. token s = Some u \<and> RESET_TOKEN_INTERVAL_MS \<le> Date_now P (clockReads s) - timestamp u) \<longrightarrow>
      (let k = (case token s of None \<Rightarrow> clockReads s | Some u \<Rightarrow> Suc (clockReads s));
           r = sign P (signCalls s) \<lparr>iss = team s, iat = Date_now P k div 1000\<rparr> (signingKey s)
                 \<lparr>algorithm = ''ES256'', header_alg = ''ES256'', header_kid = keyId s\<rparr>
       in fst (getSigningToken P s) = r \<and>
          signCalls (snd (getSigningToken P s)) = Suc (signCalls s) \<and>
          token (snd (getSigningToken P s)) =
            (case r of
               Inl e \<Rightarrow> token s
             | Inr x \<Rightarrow> Some \<lparr>tokenValue = x, timestamp = Date_now P (Suc k)\<rparr>)))"
proof (intro conjI impI)
  show "RESET_TOKEN_INTERVAL_MS = 55 * 60 * 1000"
    by (simp add: RESET_TOKEN_INTERVAL_MS_def)
next
  assume a: "token s = Some t \<and> Date_now P (clockReads s) - timestamp t < RESET_TOKEN_INTERVAL_MS"
  then have "getSigningToken P s = (Inr (tokenValue t), s\<lparr>clockReads := Suc (clockReads s)\<rparr>)"
    by (simp add: getSigningToken_cached)
  with a show "fst (getSigningToken P s) = Inr (tokenValue t)"
    and "token (snd (getSigningToken P s)) = Some t"
    and "signCalls (snd (getSigningToken P s)) = signCalls s"
    by simp_all
next
  assume a: "getSigningToken P s = (Inr v, s1) \<and> token s1 = Some t1 \<and>
    Date_now P (clockReads s1) - timestamp t1 < RESET_TOKEN_INTERVAL_MS"
  then obtain u where "token s1 = Some u" "tokenValue u = v"
    using getSigningToken_stores by blast
  with a have "tokenValue t1 = v" by simp
  with a show "fst (getSigningToken P s1) = Inr v"
    by (simp add: getSigningToken_cached)
next
  assume a: "token s = None \<or>
    (\<exists>u. token s = Some u \<and> RESET_TOKEN_INTERVAL_MS \<le> Date_now P (clockReads s) - timestamp u)"
  show "let k = (case token s of None \<Rightarrow> clockReads s | Some u \<Rightarrow> Suc (clockReads s));
           r = sign P (signCalls s) \<lparr>iss = team s, iat = Date_now P k div 1000\<rparr> (signingKey s)
                 \<lparr>algorithm = ''ES256'', header_alg = ''ES256'', header_kid = keyId s\<rparr>
       in fst (getSigningToken P s) = r \<and>
          signCalls (snd (getSigningToken P s)) = Suc (signCalls s) \<and>
          token (snd (getSigningToken P s)) =
            (case r of
               Inl e \<Rightarrow> token s
             | Inr x \<Rightarrow> Some \<lparr>tokenValue = x, timestamp = Date_now P (Suc k)\<rparr>)"
  proof (cases "token s")
    case None
    then show ?thesis
      by (simp add: getSigningToken_absent signFresh_result signFresh_state Let_def split: sum.splits)
  next
    case (Some u)
    with a have "\<not> Date_now P (clockReads s) - timestamp u < RESET_TOKEN_INTERVAL_MS"
      by auto
    with Some show ?thesis
      by (simp add: getSigningToken_stale signFresh_result signFresh_state Let_def split: sum.splits)
  qed
qed

lemma sample_first_call:
  "getSigningToken samplePlatform sampleClient =
     (Inr ''jwt0'',
      sampleClient\<lparr>clockReads := 2, signCalls := 1,
        token := Some \<lparr>tokenValue = ''jwt0'', timestamp = 1000001\<rparr>\<rparr>)"
  by (simp add: getSigningToken_def signFresh_def now_def sampleClient_def newApnsClient_def
      samplePlatform_def show_nat.simps digit_def Let_def)

theorem getSigningToken_rotation_witness:
  "fst (getSigningToken samplePlatform
          (sampleClient\<lparr>token := Some \<lparr>tokenValue = ''cached'', timestamp = 999000\<rparr>\<rparr>)) = Inr ''cached'' \<and>
   fst (getSigningToken samplePlatform sampleClient) = Inr ''jwt0'' \<and>
   token (snd (getSigningToken samplePlatform sampleClient)) =
     Some \<lparr>tokenValue = ''jwt0'', timestamp = 1000001\<rparr> \<and>
   fst (getSigningToken samplePlatform (snd (getSigningToken samplePlatform sampleClient))) = Inr ''jwt0''"
proof -
  let ?s = "sampleClient\<lparr>token := Some \<lparr>tokenValue = ''cached'', timestamp = 999000\<rparr>\<rparr>"
  let ?s1 = "sampleClient\<lparr>clockReads := 2, signCalls := 1,
        token := Some \<lparr>tokenValue = ''jwt0'', timestamp = 1000001\<rparr>\<rparr>"
  have young: "token ?s = Some \<lparr>tokenValue = ''cached'', timestamp = 999000\<rparr> \<and>
      Date_now samplePlatform (clockReads ?s) - timestamp \<lparr>tokenValue = ''cached'', timestamp = 999000\<rparr>
        < RESET_TOKEN_INTERVAL_MS"
    by (simp add: sampleClient_def newApnsClient_def samplePlatform_def RESET_TOKEN_INTERVAL_MS_def)
  have fresh: "Date_now samplePlatform (clockReads ?s1)
        - timestamp \<lparr>tokenValue = ''jwt0'', timestamp = 1000001\<rparr> < RESET_TOKEN_INTERVAL_MS"
    by (simp add: samplePlatform_def RESET_TOKEN_INTERVAL_MS_def)
  have again: "getSigningToken samplePlatform sampleClient = (Inr ''jwt0'', ?s1) \<and>
      token ?s1 = Some \<lparr>tokenValue = ''jwt0'', timestamp = 1000001\<rparr> \<and>
      Date_now samplePlatform (clockReads ?s1) - timestamp \<lparr>tokenValue = ''jwt0'', timestamp = 1000001\<rparr>
        < RESET_TOKEN_INTERVAL_MS"
    using fresh by (simp add: sample_first_call)
  have absent: "token sampleClient = None"
    by (simp add: sampleClient_def newApnsClient_def)
  from young have 1: "fst (getSigningToken samplePlatform ?s) = Inr ''cached''"
    using getSigningToken_rotation [of ?s "\<lparr>tokenValue = ''cached'', timestamp = 999000\<rparr>" samplePlatform]
    by simp
  from again have 2: "fst (getSigningToken samplePlatform ?s1) = Inr ''jwt0''"
    using getSigningToken_rotation [of sampleClient _ samplePlatform "''jwt0''" ?s1
        "\<lparr>tokenValue = ''jwt0'', timestamp = 1000001\<rparr>"]
    by simp
  from absent have 3: "fst (getSigningToken samplePlatform sampleClient) = Inr ''jwt0'' \<and>
      token (snd (getSigningToken samplePlatform sampleClient)) =
        Some \<lparr>tokenValue = ''jwt0'', timestamp = 1000001\<rparr>"
    using getSigningToken_rotation [of sampleClient _ samplePlatform]
    by (simp add: Let_def sampleClient_def newApnsClient_def samplePlatform_def show_nat.simps digit_def)
  from 1 2 3 show ?thesis
    by (simp add: sample_first_call)
qed

text \<open>
  C3: the reset clears the stored token whatever it was, and it is what the client's
  listener does on the expired-token event. The call of \<^verbatim>\<open>_getSigningToken\<close> that
  follows returns what a new call of \<^verbatim>\<open>sign\<close> returns, stores it, and does not
  depend on the token that was stored before the reset.
\<close>

theorem invalidate_then_sign:
  "token (resetSigningToken s) = None \<and>
   emit name name s = resetSigningToken s \<and>
   fst (getSigningToken P (resetSigningToken s)) =
     sign P (signCalls s) \<lparr>iss = team s, iat = Date_now P (clockReads s) div 1000\<rparr> (signingKey s)
       \<lparr>algorithm = ''ES256'', header_alg = ''ES256'', header_kid = keyId s\<rparr> \<and>
   signCalls (snd (getSigningToken P (resetSigningToken s))) = Suc (signCalls s) \<and>
   token (snd (getSigningToken P (resetSigningToken s))) =
     (case fst (getSigningToken P (resetSigningToken s)) of
        Inl e \<Rightarrow> None
      | Inr v \<Rightarrow> Some \<lparr>tokenValue = v, timestamp = Date_now P (Suc (clockReads s))\<rparr>) \<and>
   getSigningToken P (resetSigningToken (s\<lparr>token := old\<rparr>)) = getSigningToken P (resetSigningToken s)"
  by (simp add: resetSigningToken_def emit_def getSigningToken_absent signFresh_result
      signFresh_state split: sum.splits)

subsection \<open>Sending one notification\<close>

text \<open>
  C1: for a notification whose device token is empty, building the path throws, so
  \<^verbatim>\<open>send\<close> is rejected with that error and the client is left as it was: no stream
  was opened on the session and the stored signing token is unchanged.
\<close>

theorem send_empty_token:
  "deviceToken n = [] \<Longrightarrow>
   getPath (deviceToken n) = Inl (Error ''Device token is required'') \<and>
   send P s n = (Rejected (Error ''Device token is required''), s) \<and>
   streams (snd (send P s n)) = streams s \<and>
   token (snd (send P s n)) = token s"
  by (simp add: send_def push_def getPath_def)

theorem send_empty_token_witness:
  "deviceToken (sampleNotification []) = [] \<and>
   send samplePlatform (sampleClient\<lparr>token := Some \<lparr>tokenValue = ''cached'', timestamp = 0\<rparr>\<rparr>)
     (sampleNotification []) =
     (Rejected (Error ''Device token is required''),
      sampleClient\<lparr>token := Some \<lparr>tokenValue = ''cached'', timestamp = 0\<rparr>\<rparr>)"
  using send_empty_token [of "sampleNotification []" samplePlatform
      "sampleClient\<lparr>token := Some \<lparr>tokenValue = ''cached'', timestamp = 0\<rparr>\<rparr>"]
  by (simp add: sampleNotification_def)

subsection \<open>Headers\<close>










lemma sample_getPath:
  "getPath ''a1b2'' = Inr ''/3/device/a1b2''"
  "getPath ''c3d4'' = Inr ''/3/device/c3d4''"
  "getPath ''bad0'' = Inr ''/3/device/bad0''"
  by (simp_all add: getPath_def path_join_def posix_normalize_def show_nat_API_VERSION Let_def)







subsection \<open>The connection wrapper\<close>

lemma openStream_path: "sent_headers (openStream path opts) '':path'' = Some (Text path)"
  by (simp add: openStream_def Let_def HTTP2_HEADER_PATH_def)

lemma request_fst:
  "fst (request P s path opts) =
     awaitResponse P (timeout opts) (stream_events P (length (streams s)) (openStream path opts))"
  by (simp add: request_def Let_def)

lemma request_snd:
  "snd (request P s path opts) = s\<lparr>streams := streams s @ [openStream path opts]\<rparr>"
  by (simp add: request_def Let_def)

text \<open>
  C6, as stated, fails: the wrapper writes its own method and path after the caller's
  headers, so a \<open>:path\<close> supplied by the caller is replaced by the wrapper's.
\<close>

theorem caller_path_counterexample:
  "sent_headers
     (last (streams (snd (request samplePlatform sampleClient ''/wrapper''
        \<lparr>headers = Some ['':path'' \<mapsto> Text ''/caller''], body = None, httpMethod = GET,
         timeout = None\<rparr>)))) '':path'' = Some (Text ''/wrapper'') \<and>
   Some (Text ''/wrapper'') \<noteq> ['':path'' \<mapsto> Text ''/caller''] '':path''"
  by (simp add: request_snd openStream_path)

text \<open>
  C6, amended: \<^verbatim>\<open>request\<close> opens one stream; its headers are the caller's headers
  with \<open>:method\<close> and \<open>:path\<close> set to the wrapper's method and path, which replace
  a \<open>:method\<close> or \<open>:path\<close> of the caller. Every other header of the caller,
  pseudo-header or not, is written as supplied.
\<close>

theorem request_written_headers:
  "streams (snd (request P s path opts)) = streams s @ [openStream path opts] \<and>
   sent_headers (openStream path opts) k =
     (if k = '':path'' then Some (Text path)
      else if k = '':method'' then Some (Text (method_name (httpMethod opts)))
      else (case headers opts of None \<Rightarrow> None | Some h \<Rightarrow> h k))"
  by (simp add: request_snd openStream_def Let_def HTTP2_HEADER_METHOD_def HTTP2_HEADER_PATH_def
      split: option.splits)

subsection \<open>The body\<close>

lemma bodyWait_chunks:
  "bodyWait P acc (map DataEv cs @ EndEv # rest) =
     (case convertBufferToJson P (Some (concat (acc @ cs))) of
        Inl e \<Rightarrow> Uncaught e
      | Inr v \<Rightarrow> Fulfilled v)"
  by (induction cs arbitrary: acc) simp_all

text \<open>
  What the body wait ends in once the stream has ended: the chunks are concatenated in
  order and decoded; an empty text gives no body, a text that parses gives its value,
  and a text that does not parse leaves the promise unsettled.
\<close>

lemma responseJson_outcome:
  "responseJson P (map DataEv cs @ EndEv # rest) =
     (let text = toString_utf8 P (concat cs)
      in if text = [] then Fulfilled None
         else (case JSON_parse P text of
                 Inl e \<Rightarrow> Uncaught e
               | Inr j \<Rightarrow> Fulfilled (Some j)))"
  by (simp add: responseJson_def bodyWait_chunks convertBufferToJson_def Let_def split: sum.splits)

lemma sample_responseJson_html:
  "responseJson samplePlatform [DataEv ''<ht'', DataEv ''ml>'', EndEv] =
     Uncaught (Thrown ''SyntaxError'')"
proof -
  have "responseJson samplePlatform (map DataEv [''<ht'', ''ml>''] @ EndEv # []) =
      Uncaught (Thrown ''SyntaxError'')"
    by (subst responseJson_outcome) (simp add: samplePlatform_def)
  then show ?thesis by simp
qed

lemma sample_responseJson_empty: "responseJson samplePlatform [EndEv] = Fulfilled None"
proof -
  have "responseJson samplePlatform (map DataEv [] @ EndEv # []) = Fulfilled None"
    by (subst responseJson_outcome) (simp add: samplePlatform_def)
  then show ?thesis by simp
qed

lemma armed_simps:
  "armed P None = Inr None"
  "armed P (Some (Finite 0)) = Inr None"
  "0 < k \<Longrightarrow> armed P (Some (Finite (of_int k))) = Inr (Some (min (nat k) TIMEOUT_MAX))"
  by (auto simp: armed_def getTimerDuration_def TIMEOUT_MAX_def min_def)

lemma sample_status:
  "Number samplePlatform (header_get sampleResponseHeaders HTTP2_HEADER_STATUS) = Some 200"
  "getStatusText samplePlatform (Some 200) = ''OK''"
  by (simp_all add: samplePlatform_def header_get_def sampleResponseHeaders_def
      HTTP2_HEADER_STATUS_def)

lemma sample_await_html:
  "awaitResponse samplePlatform None
     [ResponseEv sampleResponseHeaders, DataEv ''<ht'', DataEv ''ml>'', EndEv] =
     Uncaught (Thrown ''SyntaxError'')"
  by (simp add: awaitResponse_def responseHeaders_def armed_simps sample_responseJson_html)

lemma sample_await_empty:
  "awaitResponse samplePlatform None [ResponseEv sampleResponseHeaders, EndEv] = Fulfilled sampleOk"
  by (simp add: awaitResponse_def responseHeaders_def armed_simps sample_responseJson_empty
      sample_status sampleOk_def)

lemma sample_stream_events: "stream_events samplePlatform k r = sampleEvents r"
  by (simp add: samplePlatform_def)

lemma sampleEvents_path:
  "sampleEvents (openStream path opts) =
     (if path = ''/3/device/bad0''
      then [ResponseEv sampleResponseHeaders, DataEv ''<ht'', DataEv ''ml>'', EndEv]
      else [ResponseEv sampleResponseHeaders, EndEv])"
  unfolding sampleEvents_def openStream_path by simp

text \<open>
  C7 fails on the code for a body that is not JSON. The remote end answers with the
  chunks \<open><ht\<close> and \<open>ml>\<close>; \<^verbatim>\<open>JSON.parse\<close> throws inside the \<^verbatim>\<open>'end'\<close> listener,
  so the body wait is neither fulfilled nor rejected, and neither is the request: the
  caller of \<^verbatim>\<open>request\<close> gets no error.
\<close>

theorem parse_failure_unsettled:
  "responseJson samplePlatform [DataEv ''<ht'', DataEv ''ml>'', EndEv] =
     Uncaught (Thrown ''SyntaxError'') \<and>
   fst (request samplePlatform sampleClient ''/3/device/bad0''
          \<lparr>headers = None, body = None, httpMethod = GET, timeout = None\<rparr>) =
     Uncaught (Thrown ''SyntaxError'')"
  by (simp add: sample_responseJson_html request_fst sample_stream_events sampleEvents_path
      sample_await_html)

subsection \<open>The timeout\<close>

lemma headerWait_unarmed: "fst (headerWait P None idle es) \<noteq> Rejected TimeoutSignal"
  by (induction P "None :: nat option" idle es rule: headerWait.induct) simp_all

lemma bodyWait_no_timeout: "bodyWait P acc es \<noteq> Rejected TimeoutSignal"
  by (induction P acc es rule: bodyWait.induct) (simp_all split: sum.splits)

lemma headerWait_fires:
  "idle < t \<Longrightarrow> t \<le> idle + sum_list ns \<Longrightarrow>
   fst (headerWait P (Some t) idle (map Idle ns @ es)) = Rejected TimeoutSignal"
  by (induction ns arbitrary: idle) auto

lemma headerWait_silent:
  "fst (headerWait P (Some t) idle (map Idle ns)) = Rejected TimeoutSignal"
  by (induction ns arbitrary: idle) auto

lemma headerWait_in_time:
  "idle + sum_list ns < t \<Longrightarrow>
   headerWait P (Some t) idle (map Idle ns @ ResponseEv h # es) =
     (Fulfilled (h, Number P (header_get h HTTP2_HEADER_STATUS)), es)"
  by (induction ns arbitrary: idle) auto

lemma headerWait_no_timer:
  "headerWait P None idle (map Idle ns @ ResponseEv h # es) =
     (Fulfilled (h, Number P (header_get h HTTP2_HEADER_STATUS)), es)"
  by (induction ns arbitrary: idle) auto

lemma awaitResponse_no_timeout:
  assumes "fst (responseHeaders P t evs) \<noteq> Rejected TimeoutSignal"
  shows "awaitResponse P t evs \<noteq> Rejected TimeoutSignal"
proof -
  obtain r rest where r: "responseHeaders P t evs = (r, rest)"
    by (cases "responseHeaders P t evs")
  with assms have "r \<noteq> Rejected TimeoutSignal" by simp
  with r show ?thesis
    using bodyWait_no_timeout [of P "[]" rest]
    by (auto simp: awaitResponse_def responseJson_def split: promise.splits prod.splits)
qed

lemma awaitResponse_rejected:
  "fst (responseHeaders P t evs) = Rejected e \<Longrightarrow> awaitResponse P t evs = Rejected e"
  by (cases "responseHeaders P t evs") (simp add: awaitResponse_def)

text \<open>
  C10: a timeout of \<open>0\<close> sets no timer; the header wait behaves as without a timeout
  and is never rejected by the timeout listener, and neither is the request.
\<close>

theorem zero_timeout_never_fires:
  "armed P (Some (Finite 0)) = Inr None \<and>
   responseHeaders P (Some (Finite 0)) es = responseHeaders P None es \<and>
   fst (responseHeaders P (Some (Finite 0)) es) \<noteq> Rejected TimeoutSignal \<and>
   fst (request P s path (opts\<lparr>timeout := Some (Finite 0)\<rparr>)) \<noteq> Rejected TimeoutSignal"
proof -
  have hw: "fst (responseHeaders P (Some (Finite 0)) evs) \<noteq> Rejected TimeoutSignal" for evs
    by (simp add: responseHeaders_def armed_simps headerWait_unarmed)
  then have "fst (request P s path (opts\<lparr>timeout := Some (Finite 0)\<rparr>)) \<noteq> Rejected TimeoutSignal"
    by (simp add: request_fst awaitResponse_no_timeout)
  with hw show ?thesis
    by (simp add: responseHeaders_def armed_simps)
qed

text \<open>
  The other falsy numbers set no timer either, and a negative or infinite timeout makes
  \<^verbatim>\<open>setTimeout\<close> throw, which rejects the request before it waits.
\<close>

lemma falsy_timeout_unarmed:
  "armed P (Some NaN) = Inr None" "armed P (Some NegZero) = Inr None"
  by (simp_all add: armed_def)

lemma negative_timeout_throws:
  "k < 0 \<Longrightarrow>
   fst (request P s path (opts\<lparr>timeout := Some (Finite (of_int k))\<rparr>)) =
     Rejected (Thrown ''ERR_OUT_OF_RANGE'')"
  by (simp add: request_fst awaitResponse_def responseHeaders_def armed_def getTimerDuration_def)

lemma slow_platform:
  "stream_events (slowPlatform n) k r = Idle n # sampleEvents r"
  "Number (slowPlatform n) (header_get sampleResponseHeaders HTTP2_HEADER_STATUS) = Some 200"
  "getStatusText (slowPlatform n) (Some 200) = ''OK''"
  "responseJson (slowPlatform n) [EndEv] = Fulfilled None"
  by (simp_all add: slowPlatform_def samplePlatform_def header_get_def sampleResponseHeaders_def
      HTTP2_HEADER_STATUS_def responseJson_def convertBufferToJson_def)

text \<open>
  C8, as stated, fails for the timeout \<open>0\<close>: the remote end stays silent for a minute,
  far longer than the window, and the request is not rejected but fulfilled with the
  late answer.
\<close>

theorem zero_timeout_counterexample:
  "responseHeaders (slowPlatform 60000) (Some (Finite 0))
     [Idle 60000, ResponseEv sampleResponseHeaders, EndEv] =
     (Fulfilled (sampleResponseHeaders, Some 200), [EndEv]) \<and>
   fst (request (slowPlatform 60000) sampleClient ''/3/device/a1b2''
          \<lparr>headers = None, body = None, httpMethod = GET, timeout = Some (Finite 0)\<rparr>) =
     Fulfilled sampleOk"
proof -
  have hw: "responseHeaders (slowPlatform 60000) (Some (Finite 0))
      [Idle 60000, ResponseEv sampleResponseHeaders, EndEv] =
      (Fulfilled (sampleResponseHeaders, Some 200), [EndEv])"
    by (simp add: responseHeaders_def armed_simps slow_platform)
  then show ?thesis
    by (simp add: request_fst slow_platform sampleEvents_path awaitResponse_def sampleOk_def)
qed

text \<open>
  C8, amended: for a timeout of \<open>k\<close> milliseconds, \<open>k\<close> a positive whole number, the
  timer's window is \<open>k\<close> cut to \<open>2\<^sup>3\<^sup>1 - 1\<close>. If the stream stays idle for the whole
  window before anything else happens on it, or nothing ever happens on it, the header
  wait and the request are rejected by the timeout listener; if the response headers
  arrive after less idle time than the window, the header wait and the request end as
  they do without a timeout.
\<close>

theorem timeout_window:
  "TIMEOUT_MAX = 2147483647 \<and>
   (0 < k \<and> min (nat k) TIMEOUT_MAX \<le> sum_list ns \<longrightarrow>
      fst (responseHeaders P (Some (Finite (of_int k))) (map Idle ns @ es)) =
        Rejected TimeoutSignal) \<and>
   (0 < k \<longrightarrow>
      fst (responseHeaders P (Some (Finite (of_int k))) (map Idle ns)) = Rejected TimeoutSignal) \<and>
   (0 < k \<and> timeout opts = Some (Finite (of_int k)) \<and>
    stream_events P (length (streams s)) (openStream path opts) = map Idle ns @ es \<and>
    (min (nat k) TIMEOUT_MAX \<le> sum_list ns \<or> es = []) \<longrightarrow>
      fst (request P s path opts) = Rejected TimeoutSignal) \<and>
   (0 < k \<and> sum_list ns < min (nat k) TIMEOUT_MAX \<longrightarrow>
      responseHeaders P (Some (Finite (of_int k))) (map Idle ns @ ResponseEv h # es) =
        responseHeaders P None (map Idle ns @ ResponseEv h # es)) \<and>
   (0 < k \<and> sum_list ns < min (nat k) TIMEOUT_MAX \<and>
    timeout opts = Some (Finite (of_int k)) \<and>
    stream_events P (length (streams s)) (openStream path opts) =
      map Idle ns @ ResponseEv h # es \<longrightarrow>
      request P s path opts = request P s path (opts\<lparr>timeout := None\<rparr>))"
proof (intro conjI impI)
  show "TIMEOUT_MAX = 2147483647"
    by (simp add: TIMEOUT_MAX_def)
next
  assume a: "0 < k \<and> min (nat k) TIMEOUT_MAX \<le> sum_list ns"
  then have "0 < min (nat k) TIMEOUT_MAX"
    by (simp add: TIMEOUT_MAX_def)
  with a show "fst (responseHeaders P (Some (Finite (of_int k))) (map Idle ns @ es)) =
      Rejected TimeoutSignal"
    by (simp add: responseHeaders_def armed_simps headerWait_fires)
next
  assume "0 < k"
  then show "fst (responseHeaders P (Some (Finite (of_int k))) (map Idle ns)) =
      Rejected TimeoutSignal"
    by (simp add: responseHeaders_def armed_simps headerWait_silent)
next
  assume a: "0 < k \<and> timeout opts = Some (Finite (of_int k)) \<and>
    stream_events P (length (streams s)) (openStream path opts) = map Idle ns @ es \<and>
    (min (nat k) TIMEOUT_MAX \<le> sum_list ns \<or> es = [])"
  then have pos: "0 < min (nat k) TIMEOUT_MAX"
    by (simp add: TIMEOUT_MAX_def)
  have "fst (headerWait P (Some (min (nat k) TIMEOUT_MAX)) 0 (map Idle ns @ es)) =
      Rejected TimeoutSignal"
  proof (cases "es = []")
    case True
    then show ?thesis by (simp add: headerWait_silent)
  next
    case False
    with a pos show ?thesis by (simp add: headerWait_fires)
  qed
  with a have "fst (responseHeaders P (Some (Finite (of_int k))) (map Idle ns @ es)) =
      Rejected TimeoutSignal"
    by (simp add: responseHeaders_def armed_simps)
  then have "awaitResponse P (Some (Finite (of_int k))) (map Idle ns @ es) =
      Rejected TimeoutSignal"
    by (rule awaitResponse_rejected)
  with a show "fst (request P s path opts) = Rejected TimeoutSignal"
    by (simp add: request_fst)
next
  assume a: "0 < k \<and> sum_list ns < min (nat k) TIMEOUT_MAX"
  then show "responseHeaders P (Some (Finite (of_int k))) (map Idle ns @ ResponseEv h # es) =
        responseHeaders P None (map Idle ns @ ResponseEv h # es)"
    by (simp add: responseHeaders_def armed_simps headerWait_in_time headerWait_no_timer)
next
  assume a: "0 < k \<and> sum_list ns < min (nat k) TIMEOUT_MAX \<and>
    timeout opts = Some (Finite (of_int k)) \<and>
    stream_events P (length (streams s)) (openStream path opts) =
      map Idle ns @ ResponseEv h # es"
  then have "responseHeaders P (Some (Finite (of_int k))) (map Idle ns @ ResponseEv h # es) =
        responseHeaders P None (map Idle ns @ ResponseEv h # es)"
    by (simp add: responseHeaders_def armed_simps headerWait_in_time headerWait_no_timer)
  then have "awaitResponse P (Some (Finite (of_int k))) (map Idle ns @ ResponseEv h # es) =
        awaitResponse P None (map Idle ns @ ResponseEv h # es)"
    by (simp add: awaitResponse_def)
  with a show "request P s path opts = request P s path (opts\<lparr>timeout := None\<rparr>)"
    by (simp add: request_def Let_def openStream_def)
qed

theorem timeout_window_witness:
  "fst (request (slowPlatform 60000) sampleClient ''/3/device/a1b2''
          \<lparr>headers = None, body = None, httpMethod = GET, timeout = Some (Finite 5000)\<rparr>) =
     Rejected TimeoutSignal \<and>
   fst (request (slowPlatform 2147483648) sampleClient ''/3/device/a1b2''
          \<lparr>headers = None, body = None, httpMethod = GET, timeout = Some (Finite 4294967296)\<rparr>) =
     Rejected TimeoutSignal \<and>
   request (slowPlatform 60000) sampleClient ''/3/device/a1b2''
     \<lparr>headers = None, body = None, httpMethod = GET, timeout = Some (Finite 90000)\<rparr> =
   request (slowPlatform 60000) sampleClient ''/3/device/a1b2''
     \<lparr>headers = None, body = None, httpMethod = GET, timeout = None\<rparr> \<and>
   fst (request (slowPlatform 60000) sampleClient ''/3/device/a1b2''
          \<lparr>headers = None, body = None, httpMethod = GET, timeout = None\<rparr>) =
     Fulfilled sampleOk"
proof -
  let ?o = "\<lambda>t. \<lparr>headers = None, body = None, httpMethod = GET, timeout = t\<rparr>"
  have ev: "stream_events (slowPlatform n) (length (streams sampleClient))
      (openStream ''/3/device/a1b2'' (?o t)) =
      map Idle [n] @ ResponseEv sampleResponseHeaders # [EndEv]" for t n
    by (simp add: slow_platform sampleEvents_path)
  have w1: "min (nat 5000) TIMEOUT_MAX \<le> sum_list [60000]"
    and w2: "min (nat 4294967296) TIMEOUT_MAX \<le> sum_list [2147483648]"
    and w3: "sum_list [60000] < min (nat 90000) TIMEOUT_MAX"
    by (simp_all add: TIMEOUT_MAX_def)
  have late: "fst (request (slowPlatform 60000) sampleClient ''/3/device/a1b2''
      (?o (Some (Finite 5000)))) = Rejected TimeoutSignal"
    using timeout_window [where k = 5000 and ns = "[60000]" and P = "slowPlatform 60000"
        and es = "ResponseEv sampleResponseHeaders # [EndEv]" and opts = "?o (Some (Finite 5000))"
        and s = sampleClient and path = "''/3/device/a1b2''"]
      ev [of 60000 "Some (Finite 5000)"] w1
    by simp
  have capped: "fst (request (slowPlatform 2147483648) sampleClient ''/3/device/a1b2''
      (?o (Some (Finite 4294967296)))) = Rejected TimeoutSignal"
    using timeout_window [where k = 4294967296 and ns = "[2147483648]"
        and P = "slowPlatform 2147483648"
        and es = "ResponseEv sampleResponseHeaders # [EndEv]"
        and opts = "?o (Some (Finite 4294967296))"
        and s = sampleClient and path = "''/3/device/a1b2''"]
      ev [of 2147483648 "Some (Finite 4294967296)"] w2
    by simp
  have early: "request (slowPlatform 60000) sampleClient ''/3/device/a1b2'' (?o (Some (Finite 90000))) =
      request (slowPlatform 60000) sampleClient ''/3/device/a1b2'' (?o None)"
    using timeout_window [where k = 90000 and ns = "[60000]" and P = "slowPlatform 60000"
        and es = "[EndEv]" and opts = "?o (Some (Finite 90000))" and s = sampleClient
        and path = "''/3/device/a1b2''" and h = sampleResponseHeaders]
      ev [of 60000 "Some (Finite 90000)"] w3
    by simp
  have plain: "fst (request (slowPlatform 60000) sampleClient ''/3/device/a1b2'' (?o None)) =
      Fulfilled sampleOk"
    by (simp add: request_fst slow_platform sampleEvents_path awaitResponse_def
        responseHeaders_def armed_simps sampleOk_def)
  from late capped early plain show ?thesis by simp
qed

subsection \<open>Sending a batch\<close>

lemma pushEach_Cons_fst:
  "fst (pushEach P s (n # ns)) =
     catchError (fst (push P s n)) # fst (pushEach P (snd (push P s n)) ns)"
  by (simp add: Let_def split_beta)

lemma pushEach_Cons_snd:
  "snd (pushEach P s (n # ns)) = snd (pushEach P (snd (push P s n)) ns)"
  by (simp add: Let_def split_beta)

declare pushEach.simps(2) [simp del]

lemma sendMany_fst: "fst (sendMany P s ns) = Promise_all (fst (pushEach P s ns))"
  by (simp add: sendMany_def split_beta)

lemma sendMany_snd: "snd (sendMany P s ns) = snd (pushEach P s ns)"
  by (simp add: sendMany_def split_beta)

lemma pushEach_length: "length (fst (pushEach P s ns)) = length ns"
  by (induction ns arbitrary: s) (simp_all add: pushEach_Cons_fst)

lemma first_rejection_catchError: "first_rejection (catchError r # ps) = first_rejection ps"
  by (cases r) simp_all

lemma pushEach_no_rejection: "first_rejection (fst (pushEach P s ns)) = None"
  by (induction ns arbitrary: s)
    (simp_all add: pushEach_Cons_fst first_rejection_catchError)

lemma Promise_all_pushEach:
  "Promise_all (fst (pushEach P s ns)) =
     (case fulfilled_values (fst (pushEach P s ns)) of
        Some vs \<Rightarrow> Fulfilled vs
      | None \<Rightarrow>
          (case first_uncaught (fst (pushEach P s ns)) of
             Some e \<Rightarrow> Uncaught e
           | None \<Rightarrow> Pending))"
  by (simp add: Promise_all_def pushEach_no_rejection)

lemma fulfilled_values_nth:
  "fulfilled_values ps = Some vs \<Longrightarrow>
   length vs = length ps \<and> (\<forall>i<length ps. ps ! i = Fulfilled (vs ! i))"
proof (induction ps arbitrary: vs rule: fulfilled_values.induct)
  case 1
  then show ?case by simp
next
  case (2 v ps)
  then obtain ws where ws: "fulfilled_values ps = Some ws" "vs = v # ws"
    by (auto split: option.splits)
  with "2.IH" [of ws] show ?case
    by (auto simp: nth_Cons split: nat.splits)
qed simp_all

lemma fulfilled_values_all:
  "(\<forall>i<length ps. \<exists>v. ps ! i = Fulfilled v) \<Longrightarrow> \<exists>vs. fulfilled_values ps = Some vs"
proof (induction ps)
  case Nil
  then show ?case by simp
next
  case (Cons p ps)
  from Cons.prems have "\<exists>v. (p # ps) ! 0 = Fulfilled v" by blast
  then obtain v where v: "p = Fulfilled v" by auto
  have "\<forall>i<length ps. \<exists>w. ps ! i = Fulfilled w"
  proof (intro allI impI)
    fix i assume "i < length ps"
    then have "Suc i < length (p # ps)" by simp
    with Cons.prems have "\<exists>w. (p # ps) ! Suc i = Fulfilled w" by blast
    then show "\<exists>w. ps ! i = Fulfilled w" by simp
  qed
  with Cons.IH obtain vs where "fulfilled_values ps = Some vs" by blast
  with v show ?case by simp
qed

lemma fulfilled_values_append:
  "fulfilled_values (ps @ qs) =
     (case fulfilled_values ps of
        None \<Rightarrow> None
      | Some vs \<Rightarrow> (case fulfilled_values qs of None \<Rightarrow> None | Some ws \<Rightarrow> Some (vs @ ws)))"
  by (induction ps rule: fulfilled_values.induct) (simp_all split: option.splits)

lemma pushEach_nth:
  "i < length ns \<Longrightarrow>
   fst (pushEach P s ns) ! i = catchError (fst (push P (snd (pushEach P s (take i ns))) (ns ! i)))"
proof (induction ns arbitrary: s i)
  case Nil
  then show ?case by simp
next
  case (Cons n ns)
  show ?case
  proof (cases i)
    case 0
    then show ?thesis by (simp add: pushEach_Cons_fst)
  next
    case (Suc j)
    with Cons.prems have "j < length ns" by simp
    from Cons.IH [OF this, of "snd (push P s n)"] Suc show ?thesis
      by (simp add: pushEach_Cons_fst pushEach_Cons_snd)
  qed
qed

lemma catchError_Fulfilled:
  "catchError r = Fulfilled v \<longleftrightarrow>
     (\<exists>x. r = Fulfilled x \<and> v = Sent x) \<or> (\<exists>e. r = Rejected e \<and> v = Captured e)"
  by (cases r) auto

lemma catchError_settled: "settled r \<Longrightarrow> \<exists>v. catchError r = Fulfilled v"
  by (cases r) simp_all

lemma pushEach_append_fst:
  "fst (pushEach P s (xs @ ys)) =
     fst (pushEach P s xs) @ fst (pushEach P (snd (pushEach P s xs)) ys)"
  by (induction xs arbitrary: s)
    (simp_all add: pushEach_Cons_fst pushEach_Cons_snd)

lemma pushEach_append_snd:
  "snd (pushEach P s (xs @ ys)) = snd (pushEach P (snd (pushEach P s xs)) ys)"
  by (induction xs arbitrary: s)
    (simp_all add: pushEach_Cons_fst pushEach_Cons_snd)

lemma push_empty_token:
  "deviceToken n = [] \<Longrightarrow> push P s n = (Rejected (Error ''Device token is required''), s)"
  by (simp add: push_def getPath_def)

text \<open>
  What the batch does when its sends settle: \<^verbatim>\<open>sendMany\<close> is never rejected. When
  every send settles, it is fulfilled; and whenever it is fulfilled, its value has the
  length and the order of the input, element \<open>i\<close> being the response of the \<open>i\<close>-th
  send or the object capturing the error that rejected it (each send runs on the client
  as the sends before it left it). A notification with an empty device token adds its
  captured error at its place and changes neither the other elements nor the client.
\<close>

lemma sendMany_outcomes:
  "fst (sendMany P s ns) \<noteq> Rejected e \<and>
   ((\<forall>i<length ns. settled (fst (push P (snd (pushEach P s (take i ns))) (ns ! i)))) \<longrightarrow>
      (\<exists>os. fst (sendMany P s ns) = Fulfilled os)) \<and>
   (fst (sendMany P s ns) = Fulfilled os \<longrightarrow>
      length os = length ns \<and>
      (\<forall>i<length ns.
         (\<exists>r. fst (push P (snd (pushEach P s (take i ns))) (ns ! i)) = Fulfilled r \<and>
              os ! i = Sent r) \<or>
         (\<exists>x. fst (push P (snd (pushEach P s (take i ns))) (ns ! i)) = Rejected x \<and>
              os ! i = Captured x))) \<and>
   (deviceToken n = [] \<and> fst (sendMany P s (xs @ ys)) = Fulfilled os \<longrightarrow>
      fst (sendMany P s (xs @ n # ys)) =
        Fulfilled (take (length xs) os @ Captured (Error ''Device token is required'')
                     # drop (length xs) os) \<and>
      snd (sendMany P s (xs @ n # ys)) = snd (sendMany P s (xs @ ys)))"
proof (intro conjI impI)
  show "fst (sendMany P s ns) \<noteq> Rejected e"
    by (simp add: sendMany_fst Promise_all_pushEach split: option.splits)
next
  assume a: "\<forall>i<length ns. settled (fst (push P (snd (pushEach P s (take i ns))) (ns ! i)))"
  have "\<forall>i<length (fst (pushEach P s ns)). \<exists>v. fst (pushEach P s ns) ! i = Fulfilled v"
    using a by (simp add: pushEach_length pushEach_nth catchError_settled)
  then obtain vs where "fulfilled_values (fst (pushEach P s ns)) = Some vs"
    using fulfilled_values_all by blast
  then show "\<exists>os. fst (sendMany P s ns) = Fulfilled os"
    by (simp add: sendMany_fst Promise_all_pushEach)
next
  assume a: "fst (sendMany P s ns) = Fulfilled os"
  then have fv: "fulfilled_values (fst (pushEach P s ns)) = Some os"
    by (auto simp: sendMany_fst Promise_all_pushEach split: option.splits)
  from fulfilled_values_nth [OF fv] show "length os = length ns"
    by (simp add: pushEach_length)
  from fulfilled_values_nth [OF fv]
  have "\<forall>i<length ns.
      catchError (fst (push P (snd (pushEach P s (take i ns))) (ns ! i))) = Fulfilled (os ! i)"
    by (simp add: pushEach_length pushEach_nth)
  then show "\<forall>i<length ns.
         (\<exists>r. fst (push P (snd (pushEach P s (take i ns))) (ns ! i)) = Fulfilled r \<and>
              os ! i = Sent r) \<or>
         (\<exists>x. fst (push P (snd (pushEach P s (take i ns))) (ns ! i)) = Rejected x \<and>
              os ! i = Captured x)"
    by (simp add: catchError_Fulfilled)
next
  assume a: "deviceToken n = [] \<and> fst (sendMany P s (xs @ ys)) = Fulfilled os"
  let ?A = "fst (pushEach P s xs)" and ?s1 = "snd (pushEach P s xs)"
  let ?B = "fst (pushEach P ?s1 ys)"
  from a have "fulfilled_values (fst (pushEach P s (xs @ ys))) = Some os"
    by (auto simp: sendMany_fst Promise_all_pushEach split: option.splits)
  then have "fulfilled_values (?A @ ?B) = Some os"
    by (simp add: pushEach_append_fst)
  then obtain va vb where v: "fulfilled_values ?A = Some va" "fulfilled_values ?B = Some vb"
    "os = va @ vb"
    by (auto simp: fulfilled_values_append split: option.splits)
  from fulfilled_values_nth [OF v(1)] have len: "length va = length xs"
    by (simp add: pushEach_length)
  from a have p: "push P ?s1 n = (Rejected (Error ''Device token is required''), ?s1)"
    by (simp add: push_empty_token)
  have each: "fst (pushEach P s (xs @ n # ys)) =
      ?A @ Fulfilled (Captured (Error ''Device token is required'')) # ?B"
    by (simp add: pushEach_append_fst pushEach_Cons_fst p)
  have "fulfilled_values (fst (pushEach P s (xs @ n # ys))) =
      Some (va @ Captured (Error ''Device token is required'') # vb)"
    unfolding each by (simp add: fulfilled_values_append v)
  moreover have "fst (sendMany P s (xs @ n # ys)) =
      Promise_all (fst (pushEach P s (xs @ n # ys)))"
    by (rule sendMany_fst)
  ultimately show "fst (sendMany P s (xs @ n # ys)) =
        Fulfilled (take (length xs) os @ Captured (Error ''Device token is required'')
                     # drop (length xs) os)"
    using v(3) len by (simp add: Promise_all_pushEach)
  show "snd (sendMany P s (xs @ n # ys)) = snd (sendMany P s (xs @ ys))"
    by (simp add: sendMany_snd pushEach_append_snd pushEach_Cons_snd p)
qed

lemma push_sent:
  assumes "getPath (deviceToken n) = Inr p"
    and "getSigningToken P s = (Inr tok, s1)"
    and "JSON_stringify P (buildApnsOptions n) = Inr b"
  shows "push P s n =
           request P s1 p
             \<lparr>headers = Some (headerObject P tok p (defaultTopic s1) n), body = Some b,
              httpMethod = POST, timeout = None\<rparr>"
  using assms by (simp add: push_def buildHeaders_def)

lemma sample_stringify: "JSON_stringify samplePlatform j = Inr ''{}''"
  by (simp add: samplePlatform_def)

lemma sample_await:
  "awaitResponse samplePlatform None (sampleEvents (openStream p opts)) =
     (if p = ''/3/device/bad0'' then Uncaught (Thrown ''SyntaxError'')
      else Fulfilled sampleOk)"
  by (simp add: sampleEvents_path sample_await_html sample_await_empty)

text \<open>The first push of the sample client signs a token; the pushes after it reuse it.\<close>

lemma sample_push_first:
  assumes "getPath t = Inr p"
  shows "fst (push samplePlatform sampleClient (sampleNotification t)) =
           (if p = ''/3/device/bad0'' then Uncaught (Thrown ''SyntaxError'')
            else Fulfilled sampleOk)"
    and "token (snd (push samplePlatform sampleClient (sampleNotification t))) =
           Some \<lparr>tokenValue = ''jwt0'', timestamp = 1000001\<rparr>"
    and "clockReads (snd (push samplePlatform sampleClient (sampleNotification t))) = 2"
proof -
  from assms have "getPath (deviceToken (sampleNotification t)) = Inr p"
    by (simp add: sampleNotification_def)
  note sent = push_sent [OF this sample_first_call sample_stringify]
  show "fst (push samplePlatform sampleClient (sampleNotification t)) =
           (if p = ''/3/device/bad0'' then Uncaught (Thrown ''SyntaxError'')
            else Fulfilled sampleOk)"
    unfolding sent by (simp add: request_fst sample_stream_events sample_await)
  show "token (snd (push samplePlatform sampleClient (sampleNotification t))) =
           Some \<lparr>tokenValue = ''jwt0'', timestamp = 1000001\<rparr>"
    and "clockReads (snd (push samplePlatform sampleClient (sampleNotification t))) = 2"
    unfolding sent by (simp_all add: request_snd)
qed

lemma sample_push_next:
  assumes "token s = Some \<lparr>tokenValue = ''jwt0'', timestamp = 1000001\<rparr>"
    and "clockReads s \<le> 100"
    and "getPath t = Inr p"
  shows "fst (push samplePlatform s (sampleNotification t)) =
           (if p = ''/3/device/bad0'' then Uncaught (Thrown ''SyntaxError'')
            else Fulfilled sampleOk)"
    and "token (snd (push samplePlatform s (sampleNotification t))) = token s"
    and "clockReads (snd (push samplePlatform s (sampleNotification t))) = Suc (clockReads s)"
proof -
  from assms(2) have "Date_now samplePlatform (clockReads s)
      - timestamp \<lparr>tokenValue = ''jwt0'', timestamp = 1000001\<rparr> < RESET_TOKEN_INTERVAL_MS"
    by (simp add: samplePlatform_def RESET_TOKEN_INTERVAL_MS_def)
  with assms(1) have tok: "getSigningToken samplePlatform s =
      (Inr ''jwt0'', s\<lparr>clockReads := Suc (clockReads s)\<rparr>)"
    using getSigningToken_cached [of s "\<lparr>tokenValue = ''jwt0'', timestamp = 1000001\<rparr>" samplePlatform]
    by simp
  from assms(3) have "getPath (deviceToken (sampleNotification t)) = Inr p"
    by (simp add: sampleNotification_def)
  note sent = push_sent [OF this tok sample_stringify]
  show "fst (push samplePlatform s (sampleNotification t)) =
           (if p = ''/3/device/bad0'' then Uncaught (Thrown ''SyntaxError'')
            else Fulfilled sampleOk)"
    unfolding sent by (simp add: request_fst sample_stream_events sample_await)
  show "token (snd (push samplePlatform s (sampleNotification t))) = token s"
    and "clockReads (snd (push samplePlatform s (sampleNotification t))) = Suc (clockReads s)"
    unfolding sent by (simp_all add: request_snd)
qed

text \<open>
  C4 fails on the code for a batch in which one response body is not JSON. The remote
  end answers the first notification with an HTML page and the second with status 200:
  the second send is fulfilled, but the first is neither fulfilled nor rejected, since
  \<^verbatim>\<open>JSON.parse\<close> throws inside the \<^verbatim>\<open>'end'\<close> listener. Its \<^verbatim>\<open>catch\<close> handler
  gets no error to capture and \<^verbatim>\<open>Promise.all\<close> never settles: the batch returns no
  sequence.
\<close>

theorem batch_parse_failure_unsettled:
  "fst (pushEach samplePlatform sampleClient [sampleNotification ''bad0'', sampleNotification ''a1b2'']) =
     [Uncaught (Thrown ''SyntaxError''), Fulfilled (Sent sampleOk)] \<and>
   fst (sendMany samplePlatform sampleClient [sampleNotification ''bad0'', sampleNotification ''a1b2'']) =
     Uncaught (Thrown ''SyntaxError'')"
proof -
  let ?s1 = "snd (push samplePlatform sampleClient (sampleNotification ''bad0''))"
  have 1: "fst (push samplePlatform sampleClient (sampleNotification ''bad0'')) =
      Uncaught (Thrown ''SyntaxError'')"
    using sample_push_first(1) [OF sample_getPath(3)] by simp
  have 2: "fst (push samplePlatform ?s1 (sampleNotification ''a1b2'')) = Fulfilled sampleOk"
    using sample_push_next(1) [OF sample_push_first(2) [OF sample_getPath(3)] _ sample_getPath(1)]
      sample_push_first(3) [OF sample_getPath(3)]
    by simp
  from 1 2 have "fst (pushEach samplePlatform sampleClient
      [sampleNotification ''bad0'', sampleNotification ''a1b2'']) =
      [Uncaught (Thrown ''SyntaxError''), Fulfilled (Sent sampleOk)]"
    by (simp add: pushEach_Cons_fst)
  then show ?thesis
    by (simp add: sendMany_fst Promise_all_def)
qed

text \<open>
  A batch of three whose second notification has no device token: the result has three
  elements in input order, the second one the captured error.
\<close>

lemma sendMany_outcomes_sample:
  "deviceToken (sampleNotification []) = [] \<and>
   settled (fst (push samplePlatform sampleClient (sampleNotification ''a1b2''))) \<and>
   settled (fst (push samplePlatform
                   (snd (push samplePlatform sampleClient (sampleNotification ''a1b2'')))
                   (sampleNotification ''c3d4''))) \<and>
   fst (sendMany samplePlatform sampleClient
          [sampleNotification ''a1b2'', sampleNotification ''c3d4'']) =
     Fulfilled [Sent sampleOk, Sent sampleOk] \<and>
   fst (sendMany samplePlatform sampleClient
          [sampleNotification ''a1b2'', sampleNotification [], sampleNotification ''c3d4'']) =
     Fulfilled [Sent sampleOk, Captured (Error ''Device token is required''), Sent sampleOk]"
proof -
  let ?a = "sampleNotification ''a1b2''" and ?c = "sampleNotification ''c3d4''"
  let ?s1 = "snd (push samplePlatform sampleClient ?a)"
  have empty: "deviceToken (sampleNotification []) = []"
    by (simp add: sampleNotification_def)
  have first: "fst (push samplePlatform sampleClient ?a) = Fulfilled sampleOk"
    using sample_push_first(1) [OF sample_getPath(1)] by simp
  have second: "fst (push samplePlatform ?s1 ?c) = Fulfilled sampleOk"
    using sample_push_next(1) [OF sample_push_first(2) [OF sample_getPath(1)] _ sample_getPath(2)]
      sample_push_first(3) [OF sample_getPath(1)]
    by simp
  have all_settled: "\<forall>i<length [?a, ?c].
      settled (fst (push samplePlatform (snd (pushEach samplePlatform sampleClient (take i [?a, ?c])))
                      ([?a, ?c] ! i)))"
    using first second
    by (simp add: less_Suc_eq numeral_2_eq_2 pushEach_Cons_snd all_conj_distrib)
  from all_settled obtain os where os: "fst (sendMany samplePlatform sampleClient [?a, ?c]) = Fulfilled os"
    using sendMany_outcomes [where P = samplePlatform and s = sampleClient and ns = "[?a, ?c]"]
    by blast
  from os have elems: "length os = 2 \<and> os ! 0 = Sent sampleOk \<and> os ! 1 = Sent sampleOk"
    using sendMany_outcomes [where P = samplePlatform and s = sampleClient and ns = "[?a, ?c]"
        and os = os] first second
    by (simp add: less_Suc_eq numeral_2_eq_2 pushEach_Cons_snd all_conj_distrib)
  then have "os = [Sent sampleOk, Sent sampleOk]"
    by (cases os; cases "tl os") (auto simp: numeral_2_eq_2)
  with os have two: "fst (sendMany samplePlatform sampleClient [?a, ?c]) =
      Fulfilled [Sent sampleOk, Sent sampleOk]"
    by simp
  have three: "fst (sendMany samplePlatform sampleClient ([?a] @ sampleNotification [] # [?c])) =
      Fulfilled [Sent sampleOk, Captured (Error ''Device token is required''), Sent sampleOk]"
    using empty two
      sendMany_outcomes [where P = samplePlatform and s = sampleClient
        and n = "sampleNotification []" and xs = "[?a]" and ys = "[?c]"
        and os = "[Sent sampleOk, Sent sampleOk]"]
    by simp
  from empty first second two three show ?thesis by simp
qed

end
